theory Spec2Isabelle
  imports Main "HOL-Library.Word"
begin

section \<open>Manim Studio front end: strings of the JavaScript runtime\<close>

text \<open>
  A JavaScript string is a sequence of UTF-16 code units, so it is modelled as a list of
  16-bit words. \<open>js\<close> turns an ASCII literal of the source into that representation.
  A string is truthy exactly when it is not empty.
\<close>

type_synonym jsstring = "16 word list"

definition js :: "string \<Rightarrow> jsstring" where
  "js s = map of_char s"

definition truthy :: "jsstring \<Rightarrow> bool" where
  "truthy s = (s \<noteq> [])"

text \<open>
  \<open>String.prototype.trim\<close> removes the code units of the ECMAScript productions
  WhiteSpace and LineTerminator from both ends.
\<close>

definition isWhiteSpace :: "16 word \<Rightarrow> bool" where
  "isWhiteSpace c = (c \<in> set [0x0009, 0x000A, 0x000B, 0x000C, 0x000D, 0x0020, 0x00A0,
     0x1680, 0x2000, 0x2001, 0x2002, 0x2003, 0x2004, 0x2005, 0x2006, 0x2007, 0x2008,
     0x2009, 0x200A, 0x2028, 0x2029, 0x202F, 0x205F, 0x3000, 0xFEFF])"

definition trim :: "jsstring \<Rightarrow> jsstring" where
  "trim s = rev (dropWhile isWhiteSpace (rev (dropWhile isWhiteSpace s)))"

section \<open>script.js: the output console\<close>

text \<open>
  The console element is the list of its children, oldest first; a child is represented
  by its \<open>innerHTML\<close>. \<open>addOutput\<close> reads the clock for the timestamp, which is an
  argument here.
\<close>

definition outputIcon :: "jsstring \<Rightarrow> jsstring" where
  "outputIcon ty =
     (if ty = js ''success'' then [0x2705]
      else if ty = js ''error'' then [0x274C]
      else if ty = js ''warning'' then [0x26A0, 0xFE0F]
      else [0x2139, 0xFE0F])"

definition outputLine :: "jsstring \<Rightarrow> jsstring \<Rightarrow> jsstring \<Rightarrow> jsstring" where
  "outputLine timestamp message ty =
     js ''<span style='' @ [0x22] @ js ''color: var(--text-secondary)'' @ [0x22] @ js ''>[''
       @ timestamp @ js '']</span> '' @ outputIcon ty @ js '' '' @ message"

text \<open>The loop \<open>while (output.children.length > 500) output.removeChild(output.firstChild)\<close>.\<close>

function limitOutput :: "jsstring list \<Rightarrow> jsstring list" where
  "limitOutput children = (if length children > 500 then limitOutput (tl children) else children)"
  by pat_completeness auto
termination
  by (relation "measure length") auto

definition addOutput :: "jsstring \<Rightarrow> jsstring \<Rightarrow> jsstring \<Rightarrow> jsstring list \<Rightarrow> jsstring list" where
  "addOutput timestamp message ty children =
     limitOutput (children @ [outputLine timestamp message ty])"

section \<open>Builtins of the runtime, for running the model\<close>

text \<open>
  The handlers below take \<open>parseInt\<close> and \<open>toLowerCase\<close> as arguments. To run them on
  examples: \<open>parseInt10 x\<close> is \<open>parseInt(x, 10)\<close> (leading white space, a sign, then the
  longest run of decimal digits; \<open>None\<close> is \<open>NaN\<close>), exact while the number is below
  \<open>2^53\<close>, and \<open>asciiLower\<close> is \<open>toLowerCase\<close> on strings whose letters are ASCII.
\<close>

definition isDigit :: "16 word \<Rightarrow> bool" where
  "isDigit c = (0x30 \<le> c \<and> c \<le> 0x39)"

definition parseInt10 :: "jsstring \<Rightarrow> int option" where
  "parseInt10 x =
     (let t = dropWhile isWhiteSpace x;
          neg = (t \<noteq> [] \<and> hd t = 0x2D);
          u = (if t \<noteq> [] \<and> (hd t = 0x2D \<or> hd t = 0x2B) then tl t else t);
          ds = takeWhile isDigit u;
          n = foldl (\<lambda>a d. 10 * a + (uint d - 48)) 0 ds
      in if ds = [] then None else Some (if neg then - n else n))"

definition asciiLower :: "jsstring \<Rightarrow> jsstring" where
  "asciiLower x = map (\<lambda>c. if 0x41 \<le> c \<and> c \<le> 0x5A then c + 0x20 else c) x"

section \<open>The desktop renderer: state of the page\<close>

text \<open>
  The renderer keeps its state in module-level variables and in a handful of page
  elements. The model collects them in one record and passes it through every handler.
  Elements that the handlers look up in the static page by id or selector are taken to
  exist. Calls of the backend (\<open>pywebview.api\<close>) are recorded in \<open>api_calls\<close>, oldest
  first, under the backend's own method names; the promise a call returns is an argument
  of the handler that awaits it, so a handler is followed from its call to its reply.
  Notifications and log lines are recorded in the order in which they are issued.
\<close>

datatype quality = Preset jsstring | Custom int int

datatype api_call =
    render_animation jsstring quality int
  | quick_preview jsstring quality int
  | stop_render
  | autosave_code jsstring
  | resize_terminal int int
  | get_terminal_output
  | delete_asset jsstring
  | list_media_files
  | get_asset_as_data_url jsstring
  | save_rendered_file jsstring jsstring

record asset =
  name :: jsstring
  path :: jsstring
  bytes :: nat
  mtime :: nat

text \<open>
  The object a backend call resolves to, with the fields the handlers read; a field the
  backend leaves out is the empty string or list, which is falsy as \<open>undefined\<close> is.
  A rejected promise carries the \<open>message\<close> of its error.
\<close>

record res =
  status :: jsstring
  message :: jsstring
  dataUrl :: jsstring
  ptyOutput :: jsstring
  files :: "asset list"

datatype promise = Resolved res | Rejected jsstring

record job =
  running :: bool
  type :: "jsstring option"

text \<open>The xterm.js widget: its size and what has been written to it.\<close>

record Terminal =
  cols :: int
  rows :: int
  written :: "jsstring list"

datatype save_status = saved | saving | unsaved

record preview_box =
  videoSrc :: "jsstring option"
  imageSrc :: "jsstring option"
  videoShown :: bool
  imageShown :: bool
  placeholderShown :: bool
  previewFilename :: jsstring

datatype grid = empty_state | no_match | cards "asset list"

datatype resize_cb = observer_cb | window_cb

datatype simple_view = assets_empty | asset_rows "asset list" | assets_error

record app =
  editor :: "jsstring option"
  isAppClosing :: bool
  job :: job
  lastSavedCode :: jsstring
  hasUnsavedChanges :: bool
  autosaveIndicator :: "save_status option"
  termWidget :: "Terminal option"
  terminalStatus :: "jsstring \<times> jsstring"
  preview :: preview_box
  allAssets :: "asset list"
  currentFilter :: jsstring
  searchQuery :: jsstring
  assetsGrid :: grid
  assetsCount :: nat
  lastCols :: int
  lastRows :: int
  resizeTimeout :: "nat option"
  timers :: "(nat \<times> resize_cb) list"
  nextTimer :: nat
  toasts :: "(jsstring \<times> jsstring) list"
  clicked :: "jsstring list"
  logged :: "(jsstring \<times> jsstring) list"
  confirmModal :: "(jsstring \<times> jsstring) option"
  alerts :: "(jsstring \<times> jsstring) list"
  simpleAssets :: simple_view
  api_calls :: "api_call list"

text \<open>
  The state in which the script leaves the page once it is loaded and the code editor
  holds \<open>code\<close>: the module-level initialisers, no terminal yet.
\<close>

definition initial :: "jsstring \<Rightarrow> app" where
  "initial code =
     \<lparr> editor = Some code, isAppClosing = False,
       job = \<lparr> running = False, type = None \<rparr>,
       lastSavedCode = [], hasUnsavedChanges = False, autosaveIndicator = None,
       termWidget = None, terminalStatus = ([], []),
       preview = \<lparr> videoSrc = None, imageSrc = None, videoShown = False,
                   imageShown = False, placeholderShown = True, previewFilename = [] \<rparr>,
       allAssets = [], currentFilter = js ''all'', searchQuery = [],
       assetsGrid = empty_state, assetsCount = 0,
       lastCols = 10, lastRows = 5, resizeTimeout = None, timers = [], nextTimer = 1,
       toasts = [], clicked = [], logged = [],
       confirmModal = None, alerts = [], simpleAssets = assets_empty, api_calls = [] \<rparr>"

subsection \<open>Helpers\<close>

definition getEditorValue :: "app \<Rightarrow> jsstring" where
  "getEditorValue s = (case editor s of Some v \<Rightarrow> v | None \<Rightarrow> [])"

definition toast :: "jsstring \<Rightarrow> jsstring \<Rightarrow> app \<Rightarrow> app" where
  "toast msg ty s = s\<lparr> toasts := toasts s @ [(msg, ty)] \<rparr>"

definition call :: "api_call \<Rightarrow> app \<Rightarrow> app" where
  "call c s = s\<lparr> api_calls := api_calls s @ [c] \<rparr>"

definition console_error :: "jsstring \<Rightarrow> jsstring \<Rightarrow> app \<Rightarrow> app" where
  "console_error label err s = s\<lparr> logged := logged s @ [(label, err)] \<rparr>"

text \<open>
  \<open>appendConsole\<close> writes the text to the terminal in the colour of its type; without a
  terminal it only logs to the developer console, which the model does not keep.
\<close>

definition esc :: "string \<Rightarrow> jsstring" where
  "esc code = [0x1b] @ js code"

definition appendConsole :: "jsstring \<Rightarrow> jsstring \<Rightarrow> app \<Rightarrow> app" where
  "appendConsole txt ty s =
     (case termWidget s of
        Some t \<Rightarrow>
          (let color = (if ty = js ''error'' then esc ''[31m''
                        else if ty = js ''success'' then esc ''[32m''
                        else if ty = js ''warning'' then esc ''[33m''
                        else []);
               reset = (if truthy color then esc ''[0m'' else [])
           in s\<lparr> termWidget :=
                  Some (t\<lparr> written := written t @ [color @ txt @ reset @ [0x0D, 0x0A]] \<rparr>) \<rparr>)
      | None \<Rightarrow> s)"

definition setTerminalStatus :: "jsstring \<Rightarrow> jsstring \<Rightarrow> app \<Rightarrow> app" where
  "setTerminalStatus txt ty s = s\<lparr> terminalStatus := (txt, ty) \<rparr>"

section \<open>The job coordinator\<close>

text \<open>
  The render and preview panels each have a quality select, an fps select and three
  inputs for custom values; the handlers read them when they start. \<open>parseInt\<close> is the
  builtin of the runtime and is an argument of the model, with \<open>None\<close> for \<open>NaN\<close>;
  \<open>parseInt(x, 10) || d\<close> yields \<open>d\<close> for \<open>NaN\<close> and for \<open>0\<close>. The quality string built
  from a custom width and height is kept as the pair of numbers.
\<close>

record form =
  qualitySelect :: jsstring
  fpsSelect :: jsstring
  customWidth :: jsstring
  customHeight :: jsstring
  customFps :: jsstring

definition orDefault :: "int option \<Rightarrow> int \<Rightarrow> int" where
  "orDefault r d = (case r of Some n \<Rightarrow> (if n = 0 then d else n) | None \<Rightarrow> d)"

definition renderAnimation :: "(jsstring \<Rightarrow> int option) \<Rightarrow> form \<Rightarrow> promise \<Rightarrow> app \<Rightarrow> app" where
  "renderAnimation parseInt f reply s =
     (if running (job s) then toast (js ''Another job is running'') (js ''warning'') s
      else
        let quality =
              (if qualitySelect f = js ''custom''
               then Custom (orDefault (parseInt (customWidth f)) 1920)
                           (orDefault (parseInt (customHeight f)) 1080)
               else Preset (qualitySelect f));
            fps =
              (if fpsSelect f = js ''custom'' then orDefault (parseInt (customFps f)) 30
               else orDefault (parseInt (fpsSelect f)) 30);
            code = getEditorValue s
        in if \<not> truthy (trim code) then toast (js ''No code to render'') (js ''warning'') s
           else
             (case reply of
                Resolved r \<Rightarrow>
                  (let s1 = call (render_animation code quality fps) s
                   in if status r = js ''error''
                      then toast (js ''Render failed: '' @ message r) (js ''error'') s1
                      else s1)
              | Rejected err \<Rightarrow>
                  toast (js ''Render error: '' @ err) (js ''error'')
                    (call (render_animation code quality fps) s)))"

definition quickPreview :: "(jsstring \<Rightarrow> int option) \<Rightarrow> form \<Rightarrow> promise \<Rightarrow> app \<Rightarrow> app" where
  "quickPreview parseInt f reply s =
     (if running (job s) then toast (js ''Another job is running'') (js ''warning'') s
      else
        let quality =
              (if qualitySelect f = js ''custom''
               then Custom (orDefault (parseInt (customWidth f)) 1920)
                           (orDefault (parseInt (customHeight f)) 1080)
               else Preset (qualitySelect f));
            fps =
              (if fpsSelect f = js ''custom'' then orDefault (parseInt (customFps f)) 15
               else orDefault (parseInt (fpsSelect f)) 15);
            code = getEditorValue s
        in if \<not> truthy (trim code) then toast (js ''No code to preview'') (js ''warning'') s
           else
             (case reply of
                Resolved r \<Rightarrow>
                  (let s1 = call (quick_preview code quality fps) s
                   in if status r = js ''error''
                      then toast (js ''Preview failed: '' @ message r) (js ''error'') s1
                      else s1)
              | Rejected err \<Rightarrow>
                  (let s1 = toast (js ''Preview error: '' @ err) (js ''error'')
                              (call (quick_preview code quality fps) s);
                       s2 = s1\<lparr> job := (job s1)\<lparr> running := False \<rparr> \<rparr>
                   in setTerminalStatus (js ''Error'') (js ''error'') s2)))"

definition stopActiveRender :: "promise \<Rightarrow> app \<Rightarrow> app" where
  "stopActiveRender reply s =
     (if \<not> running (job s) then toast (js ''No render in progress'') (js ''info'') s
      else
        let s1 = call stop_render (setTerminalStatus (js ''Stopping...'') (js ''warning'') s)
        in (case reply of
              Resolved r \<Rightarrow>
                (if status r = js ''success''
                 then
                   (let s2 = appendConsole (js ''Render stopped'') (js ''info'') s1;
                        s3 = s2\<lparr> job := (job s2)\<lparr> running := False \<rparr> \<rparr>
                    in setTerminalStatus (js ''Stopped'') (js ''info'') s3)
                 else appendConsole (js ''Stop failed: '' @ message r) (js ''error'') s1)
            | Rejected err \<Rightarrow> appendConsole (js ''Stop error: '' @ err) (js ''error'') s1))"

subsection \<open>The preview surface\<close>

text \<open>
  \<open>lastSegment seps x\<close> is \<open>x.split(seps).pop()\<close>: what follows the last separator, or all
  of \<open>x\<close> without one. \<open>toLowerCase\<close> is the builtin of the runtime and is an argument
  (\<open>lower\<close>); so is the clock value \<open>now\<close> used as cache buster, already as a string.
\<close>

definition lastSegment :: "16 word list \<Rightarrow> jsstring \<Rightarrow> jsstring" where
  "lastSegment seps x = rev (takeWhile (\<lambda>c. c \<notin> set seps) (rev x))"

definition videoExts :: "jsstring list" where
  "videoExts = [js ''mp4'', js ''mov'', js ''webm'', js ''avi'']"

definition cacheBusted :: "jsstring \<Rightarrow> jsstring \<Rightarrow> jsstring" where
  "cacheBusted now url =
     (if 0x3F \<in> set url then url @ js ''&_='' @ now else url @ js ''?_='' @ now)"

definition showPreview ::
  "(jsstring \<Rightarrow> jsstring) \<Rightarrow> jsstring \<Rightarrow> promise \<Rightarrow> jsstring \<Rightarrow> app \<Rightarrow> app" where
  "showPreview lower now reply filePath s =
     (if \<not> truthy filePath
      then s\<lparr> preview := (preview s)\<lparr> placeholderShown := True, videoShown := False,
                                        imageShown := False \<rparr> \<rparr>
      else
        let filename = lastSegment [0x2F, 0x5C] filePath;
            ext = lower (lastSegment [0x2E] filename);
            p = (preview s)\<lparr> videoSrc := None, imageSrc := None, videoShown := False,
                              imageShown := False, placeholderShown := False,
                              previewFilename := filename \<rparr>;
            s1 = call (get_asset_as_data_url filePath) (s\<lparr> preview := p \<rparr>)
        in (case reply of
              Rejected err \<Rightarrow>
                s1\<lparr> preview := p\<lparr> previewFilename := js ''Error: '' @ err,
                                   placeholderShown := True \<rparr> \<rparr>
            | Resolved r \<Rightarrow>
                (if status r \<noteq> js ''success'' \<or> \<not> truthy (dataUrl r)
                 then s1\<lparr> preview := p\<lparr> previewFilename :=
                          js ''Error: '' @ (if truthy (message r) then message r
                                            else js ''Failed to load''),
                        placeholderShown := True \<rparr> \<rparr>
                 else if ext \<in> set videoExts
                 then s1\<lparr> preview := p\<lparr> videoSrc := Some (cacheBusted now (dataUrl r)),
                                         videoShown := True \<rparr> \<rparr>
                 else if ext \<in> set [js ''png'', js ''jpg'', js ''jpeg'', js ''gif'', js ''webp'']
                 then s1\<lparr> preview := p\<lparr> imageSrc := Some (cacheBusted now (dataUrl r)),
                                         imageShown := True \<rparr> \<rparr>
                 else s1\<lparr> preview := p\<lparr> previewFilename := js ''Unsupported: '' @ ext,
                                         placeholderShown := True \<rparr> \<rparr>)))"

section \<open>The autosave timer\<close>

definition updateSaveStatus :: "save_status \<Rightarrow> app \<Rightarrow> app" where
  "updateSaveStatus st s =
     (case st of
        saved \<Rightarrow> s\<lparr> autosaveIndicator := Some saved, hasUnsavedChanges := False \<rparr>
      | saving \<Rightarrow> s\<lparr> autosaveIndicator := Some saving \<rparr>
      | unsaved \<Rightarrow> s\<lparr> autosaveIndicator := Some unsaved, hasUnsavedChanges := True \<rparr>)"

text \<open>One tick of the 30 second interval.\<close>

definition performAutosave :: "promise \<Rightarrow> app \<Rightarrow> app" where
  "performAutosave reply s =
     (if editor s = None \<or> isAppClosing s then s
      else
        let code = getEditorValue s
        in if code = lastSavedCode s then s
           else if \<not> truthy (trim code) then s
           else
             (let s1 = call (autosave_code code) (updateSaveStatus saving s)
              in (case reply of
                    Resolved r \<Rightarrow>
                      (if status r = js ''success''
                       then (updateSaveStatus saved s1)\<lparr> lastSavedCode := code \<rparr>
                       else updateSaveStatus unsaved
                              (console_error (js ''[AUTOSAVE] Failed:'') (message r) s1))
                  | Rejected err \<Rightarrow>
                      updateSaveStatus unsaved
                        (console_error (js ''[AUTOSAVE] Error:'') err s1))))"

section \<open>The asset browser\<close>

text \<open>\<open>includes_str x q\<close> is \<open>x.includes(q)\<close>: \<open>q\<close> occurs in \<open>x\<close> as a contiguous run.\<close>

fun includes_str :: "jsstring \<Rightarrow> jsstring \<Rightarrow> bool" where
  "includes_str [] q = (q = [])"
| "includes_str (c # cs) q = (take (length q) (c # cs) = q \<or> includes_str cs q)"

text \<open>
  \<open>displayAssets\<close> filters the files it is given by the search box and the category
  buttons and shows one card for each remaining file, in order; the grid is represented
  by the files whose cards it holds. (Without the grid element in the page the function
  gives up with an alert; the element is taken to exist, as said above.) \<open>refreshAssets\<close>
  likewise returns at once when the backend bridge is missing, which is taken to be
  there; of the two lines it logs for a failed refresh the first is kept, the second
  prints the stack of the error.
\<close>

definition displayAssets :: "(jsstring \<Rightarrow> jsstring) \<Rightarrow> asset list \<Rightarrow> app \<Rightarrow> app" where
  "displayAssets lower fs s =
     (if fs = [] then s\<lparr> assetsGrid := empty_state, assetsCount := 0 \<rparr>
      else
        let filtered1 =
              (if truthy (searchQuery s)
               then filter (\<lambda>file. includes_str (lower (name file)) (lower (searchQuery s))) fs
               else fs);
            filtered2 =
              (if currentFilter s \<noteq> js ''all''
               then filter (\<lambda>file.
                      let ext = lower (lastSegment [0x2E] (name file))
                      in if currentFilter s = js ''video'' then ext \<in> set videoExts
                         else if currentFilter s = js ''image''
                         then ext \<in> set [js ''png'', js ''jpg'', js ''jpeg'', js ''gif'', js ''svg'']
                         else True) filtered1
               else filtered1)
        in if filtered2 = [] then s\<lparr> assetsGrid := no_match, assetsCount := 0 \<rparr>
           else s\<lparr> assetsGrid := cards filtered2, assetsCount := length filtered2 \<rparr>)"

text \<open>The files shown by the grid, in the order of their cards.\<close>

definition shown :: "grid \<Rightarrow> asset list" where
  "shown g = (case g of cards fs \<Rightarrow> fs | empty_state \<Rightarrow> [] | no_match \<Rightarrow> [])"

definition refreshAssets :: "(jsstring \<Rightarrow> jsstring) \<Rightarrow> promise \<Rightarrow> app \<Rightarrow> app" where
  "refreshAssets lower reply s =
     (let s1 = call list_media_files s
      in (case reply of
            Resolved r \<Rightarrow>
              (if files r = [] then displayAssets lower [] (s1\<lparr> allAssets := [] \<rparr>)
               else displayAssets lower (files r) (s1\<lparr> allAssets := files r \<rparr>))
          | Rejected err \<Rightarrow>
              console_error (js ''[ASSETS] '' @ [0x201A, 0xF9, 0xE5] @ js '' Failed to refresh assets:'')
                err s1))"

text \<open>The handlers of the search box and of a category button.\<close>

definition onSearchInput :: "(jsstring \<Rightarrow> jsstring) \<Rightarrow> jsstring \<Rightarrow> app \<Rightarrow> app" where
  "onSearchInput lower q s = displayAssets lower (allAssets s) (s\<lparr> searchQuery := q \<rparr>)"

definition onFilterClick :: "(jsstring \<Rightarrow> jsstring) \<Rightarrow> jsstring \<Rightarrow> app \<Rightarrow> app" where
  "onFilterClick lower c s = displayAssets lower (allAssets s) (s\<lparr> currentFilter := c \<rparr>)"

subsection \<open>Deleting an asset\<close>

text \<open>
  \<open>new_features.js\<close> asks with the blocking \<open>confirm\<close> dialog, whose answer is the
  argument \<open>confirmed\<close> (dismissing the dialog answers \<open>false\<close>). After a successful
  delete it refreshes the asset list, which is a second backend call with its own reply.
\<close>

definition deleteAsset ::
  "(jsstring \<Rightarrow> jsstring) \<Rightarrow> bool \<Rightarrow> promise \<Rightarrow> promise \<Rightarrow> jsstring \<Rightarrow> jsstring \<Rightarrow> app \<Rightarrow> app" where
  "deleteAsset lower confirmed reply listReply filePath fileName s =
     (if \<not> confirmed then s
      else
        let s1 = call (delete_asset filePath) s
        in (case reply of
              Resolved r \<Rightarrow>
                (if status r = js ''success''
                 then refreshAssets lower listReply (toast (js ''File deleted'') (js ''success'') s1)
                 else toast (if truthy (message r) then message r else js ''Failed to delete'')
                        (js ''error'') s1)
            | Rejected err \<Rightarrow>
                toast (js ''Error deleting file'') (js ''error'')
                  (console_error (js ''Error deleting:'') err s1)))"

text \<open>
  \<open>simple_assets.js\<close> opens a modal of its own and returns; the delete is the modal's
  \<open>onConfirm\<close> callback. The modal is represented by its message and the path its
  callback will delete. It goes away on either button, on a click on the overlay and
  on the Escape key; only the Delete button runs the callback.
\<close>

definition showCustomAlert :: "jsstring \<Rightarrow> jsstring \<Rightarrow> app \<Rightarrow> app" where
  "showCustomAlert msg ty s = s\<lparr> alerts := alerts s @ [(msg, ty)] \<rparr>"

definition loadAssets :: "promise \<Rightarrow> app \<Rightarrow> app" where
  "loadAssets reply s =
     (let s1 = call list_media_files s
      in (case reply of
            Resolved r \<Rightarrow>
              (if files r = [] then s1\<lparr> simpleAssets := assets_empty \<rparr>
               else s1\<lparr> simpleAssets := asset_rows (files r) \<rparr>)
          | Rejected err \<Rightarrow>
              showCustomAlert (js ''Error loading assets: '' @ err) (js ''error'')
                (s1\<lparr> simpleAssets := assets_error \<rparr>)))"

definition showCustomConfirm :: "jsstring \<Rightarrow> jsstring \<Rightarrow> app \<Rightarrow> app" where
  "showCustomConfirm msg onConfirm s = s\<lparr> confirmModal := Some (msg, onConfirm) \<rparr>"

definition deleteAsset_simple :: "jsstring \<Rightarrow> jsstring \<Rightarrow> app \<Rightarrow> app" where
  "deleteAsset_simple filePath fileName s =
     showCustomConfirm (js ''Are you sure you want to delete '' @ [0x22] @ fileName @ [0x22] @ js ''?'')
       filePath s"

definition onConfirm :: "promise \<Rightarrow> promise \<Rightarrow> jsstring \<Rightarrow> app \<Rightarrow> app" where
  "onConfirm reply listReply filePath s =
     (let s1 = call (delete_asset filePath) s
      in (case reply of
            Resolved r \<Rightarrow>
              (if status r = js ''success''
               then loadAssets listReply
                      (showCustomAlert (js ''File deleted successfully'') (js ''success'') s1)
               else showCustomAlert
                      (if truthy (message r) then message r else js ''Failed to delete'')
                      (js ''error'') s1)
          | Rejected err \<Rightarrow>
              showCustomAlert (js ''Error deleting file: '' @ err) (js ''error'')
                (console_error (js ''[DELETE] Error:'') err s1)))"

datatype modal_action = click_delete | click_cancel | click_overlay | press_escape

definition modalAction :: "promise \<Rightarrow> promise \<Rightarrow> modal_action \<Rightarrow> app \<Rightarrow> app" where
  "modalAction reply listReply a s =
     (case confirmModal s of
        None \<Rightarrow> s
      | Some (msg, filePath) \<Rightarrow>
          (case a of
             click_delete \<Rightarrow> onConfirm reply listReply filePath (s\<lparr> confirmModal := None \<rparr>)
           | click_cancel \<Rightarrow> s\<lparr> confirmModal := None \<rparr>
           | click_overlay \<Rightarrow> s\<lparr> confirmModal := None \<rparr>
           | press_escape \<Rightarrow> s\<lparr> confirmModal := None \<rparr>))"

section \<open>Callbacks of the backend\<close>

text \<open>
  \<open>saveRenderedFile\<close> asks the backend to copy a rendered file to a place the user
  chooses; after a successful save of a file whose path does not contain \<open>render\<close> it
  refreshes the asset list, a further backend call with its own reply.
\<close>

definition saveRenderedFile ::
  "(jsstring \<Rightarrow> jsstring) \<Rightarrow> promise \<Rightarrow> promise \<Rightarrow> jsstring \<Rightarrow> jsstring \<Rightarrow> app \<Rightarrow> app" where
  "saveRenderedFile lower reply listReply sourcePath suggestedName s =
     (let s1 = call (save_rendered_file sourcePath suggestedName) s
      in (case reply of
            Resolved r \<Rightarrow>
              (if status r = js ''success''
               then
                 (let s2 = toast (js ''File saved successfully!'') (js ''success'') s1
                  in if \<not> includes_str sourcePath (js ''render'')
                     then refreshAssets lower listReply s2
                     else s2)
               else if status r = js ''cancelled''
               then toast (js ''Save cancelled'') (js ''info'') s1
               else toast (js ''Save failed: '' @ message r) (js ''error'')
                      (console_error (js ''[SAVE] Save failed:'') (message r) s1))
          | Rejected err \<Rightarrow>
              toast (js ''Error saving file'') (js ''error'')
                (console_error (js ''[SAVE] Error calling save_rendered_file:'') err s1)))"

text \<open>
  The backend reports the end of a job by calling one of four functions of the page.
  The console lines are the literals of the source file, code unit by code unit. The
  two completion callbacks start \<open>showPreview\<close> without awaiting it; its reply is the
  argument \<open>reply\<close>, and what follows the call in the callback touches other fields.
  With \<open>autoSave\<close>, \<open>renderCompleted\<close> sets a timer that runs \<open>saveRenderedFile\<close> half a
  second later; the model follows the callback through that timer, with the replies to
  the save and to the refresh it may start as the arguments \<open>saveReply\<close> and \<open>listReply\<close>.
\<close>

definition rule60 :: jsstring where
  "rule60 = concat (replicate 60 [0x201A, 0xEE, 0xC4])"

definition tick :: jsstring where
  "tick = [0x201A, 0xFA, 0xEC]"

definition cross :: jsstring where
  "cross = [0x201A, 0xFA, 0xF3]"

definition clearRunning :: "app \<Rightarrow> app" where
  "clearRunning s = s\<lparr> job := (job s)\<lparr> running := False \<rparr> \<rparr>"

definition renderCompleted ::
  "(jsstring \<Rightarrow> jsstring) \<Rightarrow> jsstring \<Rightarrow> promise \<Rightarrow> promise \<Rightarrow> promise \<Rightarrow>
   jsstring \<Rightarrow> bool \<Rightarrow> jsstring \<Rightarrow> app \<Rightarrow> app" where
  "renderCompleted lower now reply saveReply listReply outputPath autoSave suggestedName s =
     (let s1 = appendConsole rule60 (js ''info'') s;
          s2 = appendConsole (tick @ js '' Render completed successfully!'') (js ''success'') s1;
          s3 = appendConsole rule60 (js ''info'') s2;
          s4 = clearRunning s3;
          s5 = setTerminalStatus (js ''Ready'') (js ''success'') s4;
          s6 = toast (js ''Render completed!'') (js ''success'') s5
      in if truthy outputPath
         then
           (let s7 = showPreview lower now reply outputPath s6;
                s8 = s7\<lparr> clicked := clicked s7 @ [js ''workspace''] \<rparr>
            in if autoSave
               then saveRenderedFile lower saveReply listReply outputPath suggestedName s8
               else s8)
         else s6)"

definition renderFailed :: "jsstring \<Rightarrow> app \<Rightarrow> app" where
  "renderFailed err s =
     (let s1 = appendConsole rule60 (js ''info'') s;
          s2 = appendConsole (cross @ js '' Render failed: '' @ err) (js ''error'') s1;
          s3 = appendConsole rule60 (js ''info'') s2;
          s4 = clearRunning s3
      in setTerminalStatus (js ''Error'') (js ''error'') s4)"

definition previewCompleted ::
  "(jsstring \<Rightarrow> jsstring) \<Rightarrow> jsstring \<Rightarrow> promise \<Rightarrow> jsstring \<Rightarrow> app \<Rightarrow> app" where
  "previewCompleted lower now reply outputPath s =
     (let s1 = appendConsole rule60 (js ''info'') s;
          s2 = appendConsole (tick @ js '' Preview completed! File ready in preview box.'')
                 (js ''success'') s1;
          s3 = appendConsole rule60 (js ''info'') s2;
          s4 = clearRunning s3;
          s5 = setTerminalStatus (js ''Ready'') (js ''success'') s4
      in if truthy outputPath
         then
           (let s6 = showPreview lower now reply outputPath s5
            in s6\<lparr> clicked := clicked s6 @ [js ''workspace''] \<rparr>)
         else appendConsole (js ''Warning: No preview file found'') (js ''warning'') s5)"

definition previewFailed :: "jsstring \<Rightarrow> app \<Rightarrow> app" where
  "previewFailed err s =
     (let s1 = appendConsole rule60 (js ''info'') s;
          s2 = appendConsole (cross @ js '' Preview failed: '' @ err) (js ''error'') s1;
          s3 = appendConsole rule60 (js ''info'') s2;
          s4 = clearRunning s3
      in setTerminalStatus (js ''Error'') (js ''error'') s4)"

section \<open>The terminal session\<close>

text \<open>
  \<open>initializeTerminal\<close> creates the widget with 80 columns and 24 rows. The handlers it
  installs compute the size that fits the container with \<open>calculateTerminalSize\<close>, from
  the pixel geometry of the page; the size it returns is an argument of each handler.
\<close>

definition initializeTerminal :: "app \<Rightarrow> app" where
  "initializeTerminal s = s\<lparr> termWidget := Some \<lparr> cols = 80, rows = 24, written = [] \<rparr> \<rparr>"

definition beforeunload :: "app \<Rightarrow> app" where
  "beforeunload s = s\<lparr> isAppClosing := True \<rparr>"

text \<open>The browser's timers, as far as the resize handlers use them.\<close>

definition clearTimeout :: "nat \<Rightarrow> app \<Rightarrow> app" where
  "clearTimeout i s = s\<lparr> timers := filter (\<lambda>t. fst t \<noteq> i) (timers s) \<rparr>"

definition setTimeout :: "resize_cb \<Rightarrow> app \<Rightarrow> nat \<times> app" where
  "setTimeout cb s =
     (nextTimer s, s\<lparr> timers := timers s @ [(nextTimer s, cb)], nextTimer := nextTimer s + 1 \<rparr>)"

text \<open>
  Both resize handlers do \<open>if (resizeTimeout) clearTimeout(resizeTimeout)\<close> and then
  \<open>resizeTimeout = setTimeout(callback, 100)\<close>.
\<close>

definition debounce :: "resize_cb \<Rightarrow> app \<Rightarrow> app" where
  "debounce cb s =
     (let s1 = (case resizeTimeout s of
                  Some i \<Rightarrow> (if i \<noteq> 0 then clearTimeout i s else s)
                | None \<Rightarrow> s);
          (i, s2) = setTimeout cb s1
      in s2\<lparr> resizeTimeout := Some i \<rparr>)"

definition onContainerResize :: "app \<Rightarrow> app" where
  "onContainerResize s = (if termWidget s \<noteq> None then debounce observer_cb s else s)"

definition onWindowResize :: "app \<Rightarrow> app" where
  "onWindowResize s = debounce window_cb s"

definition notifyBackend :: "int \<Rightarrow> int \<Rightarrow> app \<Rightarrow> app" where
  "notifyBackend c r s = (if \<not> isAppClosing s then call (resize_terminal c r) s else s)"

text \<open>
  The callbacks of the two debounce timers. \<open>term.resize\<close> on a missing widget throws,
  which ends the callback.
\<close>

definition observerSettled :: "int \<times> int \<Rightarrow> app \<Rightarrow> app" where
  "observerSettled sz s =
     (if fst sz > 0 \<and> snd sz > 0 \<and> (fst sz \<noteq> lastCols s \<or> snd sz \<noteq> lastRows s)
      then
        (case termWidget s of
           None \<Rightarrow> s
         | Some t \<Rightarrow>
             (let s1 = s\<lparr> termWidget := Some (t\<lparr> cols := fst sz, rows := snd sz \<rparr>) \<rparr>;
                  s2 = notifyBackend (fst sz) (snd sz) s1
              in s2\<lparr> lastCols := fst sz, lastRows := snd sz \<rparr>))
      else s)"

definition windowSettled :: "int \<times> int \<Rightarrow> app \<Rightarrow> app" where
  "windowSettled sz s =
     (if fst sz > 0 \<and> snd sz > 0 \<and> termWidget s \<noteq> None
      then
        (case termWidget s of
           None \<Rightarrow> s
         | Some t \<Rightarrow>
             (let s1 = s\<lparr> termWidget := Some (t\<lparr> cols := fst sz, rows := snd sz \<rparr>) \<rparr>;
                  s2 = notifyBackend (fst sz) (snd sz) s1
              in s2\<lparr> lastCols := fst sz, lastRows := snd sz \<rparr>))
      else s)"

text \<open>A timer that fires leaves the table and runs its callback; a cleared one is gone.\<close>

definition fireTimer :: "nat \<Rightarrow> int \<times> int \<Rightarrow> app \<Rightarrow> app" where
  "fireTimer i sz s =
     (case map_of (timers s) i of
        None \<Rightarrow> s
      | Some cb \<Rightarrow>
          (let s1 = s\<lparr> timers := filter (\<lambda>t. fst t \<noteq> i) (timers s) \<rparr>
           in (case cb of
                 observer_cb \<Rightarrow> observerSettled sz s1
               | window_cb \<Rightarrow> windowSettled sz s1)))"

text \<open>
  The two one-shot timers of \<open>initializeTerminal\<close> (after 200 ms and 500 ms), and the
  handler that the first of them and the observer's callback attach to a rejected
  \<open>resize_terminal\<close> promise.
\<close>

definition initialAutoSize :: "int \<times> int \<Rightarrow> app \<Rightarrow> app" where
  "initialAutoSize sz s =
     (if fst sz > 0 \<and> snd sz > 0
      then
        (case termWidget s of
           None \<Rightarrow> s
         | Some t \<Rightarrow>
             (let s1 = s\<lparr> termWidget := Some (t\<lparr> cols := fst sz, rows := snd sz \<rparr>),
                         lastCols := fst sz, lastRows := snd sz \<rparr>
              in notifyBackend (fst sz) (snd sz) s1))
      else s)"

definition secondaryAutoSize :: "int \<times> int \<Rightarrow> app \<Rightarrow> app" where
  "secondaryAutoSize sz s =
     (if fst sz > 0 \<and> snd sz > 0 \<and> (fst sz \<noteq> lastCols s \<or> snd sz \<noteq> lastRows s)
      then
        (case termWidget s of
           None \<Rightarrow> s
         | Some t \<Rightarrow>
             (let s1 = s\<lparr> termWidget := Some (t\<lparr> cols := fst sz, rows := snd sz \<rparr>) \<rparr>;
                  s2 = notifyBackend (fst sz) (snd sz) s1
              in s2\<lparr> lastCols := fst sz, lastRows := snd sz \<rparr>))
      else s)"

definition resizeRejected :: "jsstring \<Rightarrow> app \<Rightarrow> app" where
  "resizeRejected err s =
     (if \<not> isAppClosing s then console_error (js ''[TERMINAL] Error resizing PTY:'') err s
      else s)"

text \<open>One tick of the 20 ms interval started by \<open>startTerminalPolling\<close>.\<close>

definition pollTerminal :: "promise \<Rightarrow> app \<Rightarrow> app" where
  "pollTerminal reply s =
     (let s1 = call get_terminal_output s
      in (case reply of
            Resolved r \<Rightarrow>
              (case termWidget s1 of
                 Some t \<Rightarrow>
                   (if status r = js ''success'' \<and> truthy (ptyOutput r)
                    then s1\<lparr> termWidget := Some (t\<lparr> written := written t @ [ptyOutput r] \<rparr>) \<rparr>
                    else s1)
               | None \<Rightarrow> s1)
          | Rejected err \<Rightarrow> console_error (js ''[TERMINAL] Poll error:'') err s1))"

text \<open>
  What happens around the terminal: the container or the window is resized, or a timer
  fires, at which moment the size that fits is \<open>sz\<close>.
\<close>

datatype resize_event = container_resized | window_resized | timer_fired nat "int \<times> int"

fun handle :: "resize_event \<Rightarrow> app \<Rightarrow> app" where
  "handle container_resized s = onContainerResize s"
| "handle window_resized s = onWindowResize s"
| "handle (timer_fired i sz) s = fireTimer i sz s"

fun run :: "resize_event list \<Rightarrow> app \<Rightarrow> app" where
  "run [] s = s"
| "run (e # es) s = run es (handle e s)"

fun isResize :: "resize_event \<Rightarrow> bool" where
  "isResize (timer_fired i sz) = False"
| "isResize e = True"

text \<open>
  At most one debounce timer is pending, and it is the one \<open>resizeTimeout\<close> names.
  Timer ids are positive.
\<close>

definition one_pending :: "app \<Rightarrow> bool" where
  "one_pending s =
     (0 < nextTimer s \<and>
      (case timers s of
         [] \<Rightarrow> True
       | [t] \<Rightarrow> resizeTimeout s = Some (fst t) \<and> 0 < fst t \<and> fst t < nextTimer s
       | _ \<Rightarrow> False))"

section \<open>Data for the examples\<close>

definition form720 :: form where
  "form720 = \<lparr> qualitySelect = js ''720p'', fpsSelect = js ''30'', customWidth = [],
                customHeight = [], customFps = [] \<rparr>"

definition success :: res where
  "success = \<lparr> status = js ''success'', message = [], dataUrl = [], ptyOutput = [],
               files = [] \<rparr>"

definition videoUrl :: res where
  "videoUrl = success\<lparr> dataUrl := js ''http://127.0.0.1/out.mp4'' \<rparr>"

definition clip :: asset where
  "clip = \<lparr> name = js ''Scene.MP4'', path = js ''assets/Scene.MP4'', bytes = 2048, mtime = 7 \<rparr>"

definition logo :: asset where
  "logo = \<lparr> name = js ''logo.png'', path = js ''assets/logo.png'', bytes = 512, mtime = 9 \<rparr>"

text \<open>The page with a terminal whose first automatic sizing found 80 by 24.\<close>

definition sized :: app where
  "sized = initialAutoSize (80, 24) (initializeTerminal (initial []))"

lemmas model_defs =
  js_def truthy_def trim_def isWhiteSpace_def isDigit_def parseInt10_def asciiLower_def
  initial_def getEditorValue_def toast_def call_def console_error_def esc_def
  appendConsole_def setTerminalStatus_def orDefault_def clearRunning_def
  lastSegment_def videoExts_def cacheBusted_def rule60_def tick_def cross_def
  updateSaveStatus_def shown_def showCustomAlert_def showCustomConfirm_def
  initializeTerminal_def beforeunload_def clearTimeout_def setTimeout_def debounce_def
  onContainerResize_def onWindowResize_def notifyBackend_def observerSettled_def
  windowSettled_def fireTimer_def initialAutoSize_def secondaryAutoSize_def
  resizeRejected_def one_pending_def
  form720_def success_def videoUrl_def clip_def logo_def sized_def Let_def

section \<open>Properties of the output console\<close>

lemma limitOutput_drop: "limitOutput xs = drop (length xs - 500) xs"
proof (induction xs rule: limitOutput.induct)
  case (1 children)
  show ?case
  proof (cases "length children > 500")
    case True
    then have "limitOutput children = drop (length (tl children) - 500) (tl children)"
      using "1" by simp
    also have "\<dots> = drop (length children - 500) children"
    proof (cases children)
      case Nil
      with True show ?thesis by simp
    next
      case (Cons a list)
      with True have "length list - 499 = Suc (length list - 500)" by simp
      with Cons show ?thesis by simp
    qed
    finally show ?thesis .
  next
    case False
    then show ?thesis by simp
  qed
qed

text \<open>
  C10. After every call of \<open>addOutput\<close> the console holds at most 500 lines, and they are
  the most recent ones: the old children followed by the new line, with the oldest
  dropped from the front until 500 are left; the new line is always the last child.
\<close>

theorem addOutput_keeps_latest_500:
  "length (addOutput timestamp msg ty children) \<le> 500
   \<and> addOutput timestamp msg ty children
       = drop (length children + 1 - 500) (children @ [outputLine timestamp msg ty])
   \<and> last (addOutput timestamp msg ty children) = outputLine timestamp msg ty"
proof -
  let ?ys = "children @ [outputLine timestamp msg ty]"
  have eq: "addOutput timestamp msg ty children = drop (length ?ys - 500) ?ys"
    unfolding addOutput_def by (rule limitOutput_drop)
  have len: "length ?ys - 500 < length ?ys" by simp
  have "last (drop (length ?ys - 500) ?ys) = last ?ys"
    using len by (rule last_drop)
  with eq show ?thesis by simp
qed

section \<open>Properties of the job coordinator\<close>

lemma trim_empty_iff: "trim x = [] \<longleftrightarrow> list_all isWhiteSpace x"
proof -
  have "trim x = [] \<longleftrightarrow> (\<forall>c\<in>set (dropWhile isWhiteSpace x). isWhiteSpace c)"
    by (simp add: trim_def dropWhile_eq_Nil_conv)
  also have "\<dots> \<longleftrightarrow> dropWhile isWhiteSpace x = []"
  proof
    assume a: "\<forall>c\<in>set (dropWhile isWhiteSpace x). isWhiteSpace c"
    show "dropWhile isWhiteSpace x = []"
    proof (rule ccontr)
      assume ne: "dropWhile isWhiteSpace x \<noteq> []"
      then have "\<not> isWhiteSpace (hd (dropWhile isWhiteSpace x))" by (rule hd_dropWhile)
      moreover have "hd (dropWhile isWhiteSpace x) \<in> set (dropWhile isWhiteSpace x)"
        using ne by simp
      ultimately show False using a by blast
    qed
  next
    assume e: "dropWhile isWhiteSpace x = []"
    show "\<forall>c\<in>set (dropWhile isWhiteSpace x). isWhiteSpace c"
      unfolding e by simp
  qed
  also have "\<dots> \<longleftrightarrow> list_all isWhiteSpace x"
    by (simp add: dropWhile_eq_Nil_conv list_all_iff)
  finally show ?thesis .
qed

lemma job_appendConsole: "job (appendConsole t ty s) = job s"
  by (simp add: appendConsole_def Let_def split: option.splits)

lemma calls_appendConsole: "api_calls (appendConsole t ty s) = api_calls s"
  by (simp add: appendConsole_def Let_def split: option.splits)

lemma preview_appendConsole: "preview (appendConsole t ty s) = preview s"
  by (simp add: appendConsole_def Let_def split: option.splits)

lemma job_showPreview: "job (showPreview lower now reply p s) = job s"
  by (simp add: showPreview_def call_def Let_def split: promise.splits)

lemma displayAssets_frame:
  "job (displayAssets lower fs s) = job s"
  "preview (displayAssets lower fs s) = preview s"
  "api_calls (displayAssets lower fs s) = api_calls s"
  by (simp_all add: displayAssets_def Let_def)

lemma refreshAssets_frame:
  "job (refreshAssets lower listReply s) = job s"
  "preview (refreshAssets lower listReply s) = preview s"
  "api_calls (refreshAssets lower listReply s) = api_calls s @ [list_media_files]"
  by (simp_all add: refreshAssets_def call_def console_error_def displayAssets_frame Let_def
        split: promise.splits)

lemma saveRenderedFile_frame:
  "job (saveRenderedFile lower saveReply listReply p n s) = job s"
  "preview (saveRenderedFile lower saveReply listReply p n s) = preview s"
  by (simp_all add: saveRenderedFile_def call_def toast_def console_error_def
        refreshAssets_frame Let_def split: promise.splits)

lemma saveRenderedFile_calls:
  "api_calls (saveRenderedFile lower saveReply listReply p n s) =
     api_calls s @ save_rendered_file p n #
       (case saveReply of
          Resolved r \<Rightarrow>
            (if status r = js ''success'' \<and> \<not> includes_str p (js ''render'')
             then [list_media_files] else [])
        | Rejected err \<Rightarrow> [])"
  by (simp add: saveRenderedFile_def call_def toast_def console_error_def
        refreshAssets_frame Let_def split: promise.splits)

text \<open>
  No handler of the coordinator and no callback of the backend turns the flag on: when
  \<open>job.running\<close> holds after one of them, it held before.
\<close>

lemma running_only_inherited:
  "running (job (renderAnimation parseInt f reply s)) \<Longrightarrow> running (job s)"
  "running (job (quickPreview parseInt f reply s)) \<Longrightarrow> running (job s)"
  "running (job (stopActiveRender reply s)) \<Longrightarrow> running (job s)"
  "running (job (renderCompleted lower now reply saveReply listReply p a n s)) \<Longrightarrow> running (job s)"
  "running (job (renderFailed e s)) \<Longrightarrow> running (job s)"
  "running (job (previewCompleted lower now reply p s)) \<Longrightarrow> running (job s)"
  "running (job (previewFailed e s)) \<Longrightarrow> running (job s)"
  by (simp_all add: renderAnimation_def quickPreview_def stopActiveRender_def
        renderCompleted_def renderFailed_def previewCompleted_def previewFailed_def
        toast_def call_def setTerminalStatus_def clearRunning_def job_appendConsole
        job_showPreview saveRenderedFile_frame Let_def
        split: if_splits promise.splits)

text \<open>
  The guard itself does what it says: were the flag set, a start request would only add
  the warning.
\<close>

lemma start_rejected_when_flag_set:
  "running (job s) \<Longrightarrow>
   renderAnimation parseInt f reply s = toast (js ''Another job is running'') (js ''warning'') s
   \<and> quickPreview parseInt f reply s = toast (js ''Another job is running'') (js ''warning'') s"
  by (simp add: renderAnimation_def quickPreview_def)

text \<open>
  C1. At most one job runs at a time, and a start request made while a job runs is
  rejected with a warning and without a backend call. The code checks \<open>job.running\<close>
  before it starts, but nothing sets the flag: on an idle page with code in the editor,
  a render request at 720p and 30 fps is sent to the backend and leaves the job idle,
  and the preview request that follows at once is sent to the backend as well, with no
  notification.
\<close>

theorem second_start_reaches_backend:
  "(let s1 = renderAnimation parseInt10 form720 (Resolved success) (initial (js ''x''));
        s2 = quickPreview parseInt10 form720 (Resolved success) s1
    in \<not> running (job s1)
       \<and> api_calls s1 = [render_animation (js ''x'') (Preset (js ''720p'')) 30]
       \<and> api_calls s2 = [render_animation (js ''x'') (Preset (js ''720p'')) 30,
                         quick_preview (js ''x'') (Preset (js ''720p'')) 30]
       \<and> toasts s2 = [])"
  by (simp add: renderAnimation_def quickPreview_def model_defs)

text \<open>
  C2. A start request on an idle page with code in the editor marks the job as running
  with its kind and calls the backend. The backend is called, but the job record is left
  as it was, for a render and for a preview: not running, no kind.
\<close>

theorem start_leaves_job_idle:
  "job (renderAnimation parseInt10 form720 (Resolved success) (initial (js ''x'')))
     = \<lparr> running = False, type = None \<rparr>
   \<and> api_calls (renderAnimation parseInt10 form720 (Resolved success) (initial (js ''x'')))
     = [render_animation (js ''x'') (Preset (js ''720p'')) 30]
   \<and> job (quickPreview parseInt10 form720 (Resolved success) (initial (js ''x'')))
     = \<lparr> running = False, type = None \<rparr>
   \<and> api_calls (quickPreview parseInt10 form720 (Resolved success) (initial (js ''x'')))
     = [quick_preview (js ''x'') (Preset (js ''720p'')) 30]"
  by (simp add: renderAnimation_def quickPreview_def model_defs)

text \<open>
  C9. A render or preview request whose editor code is empty or white space only is
  blocked before any backend call: the call log and the job are unchanged and exactly
  one notification of type warning is added.
\<close>

theorem blank_code_is_blocked:
  assumes "list_all isWhiteSpace (getEditorValue s)"
  shows "api_calls (renderAnimation parseInt f reply s) = api_calls s
       \<and> job (renderAnimation parseInt f reply s) = job s
       \<and> toasts (renderAnimation parseInt f reply s) =
           toasts s @ [(if running (job s) then js ''Another job is running''
                        else js ''No code to render'', js ''warning'')]
       \<and> api_calls (quickPreview parseInt f reply s) = api_calls s
       \<and> job (quickPreview parseInt f reply s) = job s
       \<and> toasts (quickPreview parseInt f reply s) =
           toasts s @ [(if running (job s) then js ''Another job is running''
                        else js ''No code to preview'', js ''warning'')]"
  using assms
  by (simp add: renderAnimation_def quickPreview_def trim_empty_iff truthy_def toast_def Let_def)

theorem blank_code_is_blocked_witness:
  "list_all isWhiteSpace (getEditorValue (initial [0x20, 0x0A, 0x09]))
   \<and> api_calls (renderAnimation parseInt10 form720 (Resolved success) (initial [0x20, 0x0A, 0x09])) = []
   \<and> toasts (renderAnimation parseInt10 form720 (Resolved success) (initial [0x20, 0x0A, 0x09]))
       = [(js ''No code to render'', js ''warning'')]
   \<and> api_calls (quickPreview parseInt10 form720 (Resolved success) (initial [0x20, 0x0A, 0x09])) = []
   \<and> toasts (quickPreview parseInt10 form720 (Resolved success) (initial [0x20, 0x0A, 0x09]))
       = [(js ''No code to preview'', js ''warning'')]"
  using blank_code_is_blocked [of "initial [0x20, 0x0A, 0x09]" parseInt10 form720 "Resolved success"]
  by (simp add: initial_def getEditorValue_def isWhiteSpace_def)

section \<open>Properties of the callbacks\<close>

text \<open>
  What \<open>showPreview\<close> leaves on the preview surface for a non-empty path, by the reply
  of the backend and the extension of the file.
\<close>

lemma showPreview_surface:
  assumes "truthy p"
  shows "preview (showPreview lower now reply p s) =
     (let filename = lastSegment [0x2F, 0x5C] p;
          ext = lower (lastSegment [0x2E] filename);
          nothing = \<lparr> videoSrc = None, imageSrc = None, videoShown = False,
                      imageShown = False, placeholderShown = True,
                      previewFilename = filename \<rparr>
      in (case reply of
            Rejected err \<Rightarrow> nothing\<lparr> previewFilename := js ''Error: '' @ err \<rparr>
          | Resolved r \<Rightarrow>
              (if status r = js ''success'' \<and> truthy (dataUrl r)
               then
                 (if ext \<in> set videoExts
                  then \<lparr> videoSrc = Some (cacheBusted now (dataUrl r)), imageSrc = None,
                         videoShown = True, imageShown = False, placeholderShown = False,
                         previewFilename = filename \<rparr>
                  else if ext \<in> set [js ''png'', js ''jpg'', js ''jpeg'', js ''gif'', js ''webp'']
                  then \<lparr> videoSrc = None, imageSrc = Some (cacheBusted now (dataUrl r)),
                         videoShown = False, imageShown = True, placeholderShown = False,
                         previewFilename = filename \<rparr>
                  else nothing\<lparr> previewFilename := js ''Unsupported: '' @ ext \<rparr>)
               else nothing\<lparr> previewFilename := js ''Error: '' @
                      (if truthy (message r) then message r else js ''Failed to load'') \<rparr>)))"
  using assms
  by (cases reply) (simp_all add: showPreview_def call_def Let_def)

lemma showPreview_calls:
  "truthy p \<Longrightarrow>
   api_calls (showPreview lower now reply p s) = api_calls s @ [get_asset_as_data_url p]"
  by (simp add: showPreview_def call_def Let_def split: promise.splits)

lemma showPreview_preview_cong:
  "preview s = preview s' \<Longrightarrow>
   preview (showPreview lower now reply p s) = preview (showPreview lower now reply p s')"
  by (simp add: showPreview_def call_def Let_def split: promise.splits)

lemma renderCompleted_loads:
  assumes "truthy p"
  shows "preview (renderCompleted lower now reply saveReply listReply p a n s)
           = preview (showPreview lower now reply p s)"
    and "api_calls (renderCompleted lower now reply saveReply listReply p a n s)
           = api_calls s @ get_asset_as_data_url p #
               (if a then save_rendered_file p n #
                  (case saveReply of
                     Resolved r \<Rightarrow>
                       (if status r = js ''success'' \<and> \<not> includes_str p (js ''render'')
                        then [list_media_files] else [])
                   | Rejected err \<Rightarrow> [])
                else [])"
proof -
  define s6 where "s6 = toast (js ''Render completed!'') (js ''success'')
     (setTerminalStatus (js ''Ready'') (js ''success'')
       (clearRunning (appendConsole rule60 (js ''info'')
         (appendConsole (tick @ js '' Render completed successfully!'') (js ''success'')
           (appendConsole rule60 (js ''info'') s)))))"
  define s8 where "s8 = (showPreview lower now reply p s6)
                          \<lparr> clicked := clicked (showPreview lower now reply p s6) @ [js ''workspace''] \<rparr>"
  have p6: "preview s6 = preview s" and c6: "api_calls s6 = api_calls s"
    by (simp_all add: s6_def toast_def setTerminalStatus_def clearRunning_def
          preview_appendConsole calls_appendConsole)
  have r: "renderCompleted lower now reply saveReply listReply p a n s =
             (if a then saveRenderedFile lower saveReply listReply p n s8 else s8)"
    using assms by (simp add: renderCompleted_def s6_def s8_def Let_def)
  have p8: "preview s8 = preview (showPreview lower now reply p s)"
    using showPreview_preview_cong[OF p6] by (simp add: s8_def)
  have c8: "api_calls s8 = api_calls s @ [get_asset_as_data_url p]"
    using assms c6 by (simp add: s8_def showPreview_calls)
  show "preview (renderCompleted lower now reply saveReply listReply p a n s)
           = preview (showPreview lower now reply p s)"
    using p8 by (simp add: r saveRenderedFile_frame)
  show "api_calls (renderCompleted lower now reply saveReply listReply p a n s)
           = api_calls s @ get_asset_as_data_url p #
               (if a then save_rendered_file p n #
                  (case saveReply of
                     Resolved r \<Rightarrow>
                       (if status r = js ''success'' \<and> \<not> includes_str p (js ''render'')
                        then [list_media_files] else [])
                   | Rejected err \<Rightarrow> [])
                else [])"
    using c8 by (simp add: r saveRenderedFile_calls)
qed

lemma previewCompleted_loads:
  assumes "truthy p"
  shows "preview (previewCompleted lower now reply p s)
           = preview (showPreview lower now reply p s)"
    and "api_calls (previewCompleted lower now reply p s)
           = api_calls s @ [get_asset_as_data_url p]"
proof -
  define s5 where "s5 = setTerminalStatus (js ''Ready'') (js ''success'')
       (clearRunning (appendConsole rule60 (js ''info'')
         (appendConsole (tick @ js '' Preview completed! File ready in preview box.'')
            (js ''success'')
           (appendConsole rule60 (js ''info'') s))))"
  have p5: "preview s5 = preview s" and c5: "api_calls s5 = api_calls s"
    by (simp_all add: s5_def setTerminalStatus_def clearRunning_def
          preview_appendConsole calls_appendConsole)
  have r: "previewCompleted lower now reply p s =
        (let s6 = showPreview lower now reply p s5
         in s6\<lparr> clicked := clicked s6 @ [js ''workspace''] \<rparr>)"
    using assms by (simp add: previewCompleted_def s5_def Let_def)
  have "preview (showPreview lower now reply p s5) = preview (showPreview lower now reply p s)"
    using p5 by (rule showPreview_preview_cong)
  then show "preview (previewCompleted lower now reply p s)
           = preview (showPreview lower now reply p s)"
    by (simp add: r Let_def)
  have "api_calls (showPreview lower now reply p s5)
                   = api_calls s @ [get_asset_as_data_url p]"
    using assms c5 by (simp add: showPreview_calls)
  then show "api_calls (previewCompleted lower now reply p s)
           = api_calls s @ [get_asset_as_data_url p]"
    by (simp add: r Let_def)
qed

lemma callbacks_not_running:
  "\<not> running (job (renderCompleted lower now reply saveReply listReply p a n s))"
  "\<not> running (job (renderFailed e s))"
  "\<not> running (job (previewCompleted lower now reply p s))"
  "\<not> running (job (previewFailed e s))"
  by (simp_all add: renderCompleted_def renderFailed_def previewCompleted_def
        previewFailed_def clearRunning_def setTerminalStatus_def toast_def
        job_appendConsole job_showPreview saveRenderedFile_frame Let_def)

text \<open>
  The claim that a completion with a non-empty output path loads the output into the
  preview surface fails when the backend does not deliver the file or the file is of a
  kind the surface does not show: for \<open>media/out.mp4\<close> with the reply \<open>error\<close>, and for
  \<open>media/out.mkv\<close> with a good reply, neither element has a source and the placeholder
  is shown.
\<close>

theorem completion_without_loaded_output:
  "preview (renderCompleted asciiLower (js ''17'')
              (Resolved (success\<lparr> status := js ''error'', message := js ''File not found'' \<rparr>))
              (Resolved success) (Resolved success)
              (js ''media/out.mp4'') False (js ''MyScene.mp4'') (initial (js ''x'')))
     = \<lparr> videoSrc = None, imageSrc = None, videoShown = False, imageShown = False,
         placeholderShown = True, previewFilename = js ''Error: File not found'' \<rparr>
   \<and> preview (previewCompleted asciiLower (js ''17'') (Resolved videoUrl)
              (js ''media/out.mkv'') (initial (js ''x'')))
     = \<lparr> videoSrc = None, imageSrc = None, videoShown = False, imageShown = False,
         placeholderShown = True, previewFilename = js ''Unsupported: mkv'' \<rparr>"
  by (simp add: renderCompleted_def previewCompleted_def showPreview_def model_defs)

text \<open>
  C5, as the code has it. Each of the four callbacks (render completed, render failed,
  preview completed, preview failed) leaves \<open>job.running\<close> false, whatever the job record
  was before. A completion with a non-empty output path asks the backend for the URL of
  exactly that file and then leaves the preview surface as follows. When the backend
  answers \<open>success\<close> with a URL and the extension of the file is one of mp4, mov, webm,
  avi, the video element gets that URL (with the cache buster) as its source and is
  shown; for png, jpg, jpeg, gif, webp the image element does. In every other case no
  element has a source, both are hidden and the placeholder is shown under a label that
  says why. Render completed with \<open>autoSave\<close> goes on to ask the backend to save the
  file, and to list the assets after a successful save of a path without \<open>render\<close>.
\<close>

theorem callbacks_clear_running_and_load_preview:
  "\<not> running (job (renderCompleted lower now reply saveReply listReply p a n s))
   \<and> \<not> running (job (renderFailed e s))
   \<and> \<not> running (job (previewCompleted lower now reply p s))
   \<and> \<not> running (job (previewFailed e s))
   \<and> (truthy p \<longrightarrow>
        (let filename = lastSegment [0x2F, 0x5C] p;
             ext = lower (lastSegment [0x2E] filename);
             nothing = \<lparr> videoSrc = None, imageSrc = None, videoShown = False,
                         imageShown = False, placeholderShown = True,
                         previewFilename = filename \<rparr>;
             surface =
               (case reply of
                  Rejected err \<Rightarrow> nothing\<lparr> previewFilename := js ''Error: '' @ err \<rparr>
                | Resolved r \<Rightarrow>
                    (if status r = js ''success'' \<and> truthy (dataUrl r)
                     then
                       (if ext \<in> set videoExts
                        then \<lparr> videoSrc = Some (cacheBusted now (dataUrl r)), imageSrc = None,
                               videoShown = True, imageShown = False,
                               placeholderShown = False, previewFilename = filename \<rparr>
                        else if ext \<in> set [js ''png'', js ''jpg'', js ''jpeg'', js ''gif'',
                                            js ''webp'']
                        then \<lparr> videoSrc = None, imageSrc = Some (cacheBusted now (dataUrl r)),
                               videoShown = False, imageShown = True,
                               placeholderShown = False, previewFilename = filename \<rparr>
                        else nothing\<lparr> previewFilename := js ''Unsupported: '' @ ext \<rparr>)
                     else nothing\<lparr> previewFilename := js ''Error: '' @
                            (if truthy (message r) then message r else js ''Failed to load'') \<rparr>))
         in preview (renderCompleted lower now reply saveReply listReply p a n s) = surface
            \<and> preview (previewCompleted lower now reply p s) = surface)
        \<and> api_calls (previewCompleted lower now reply p s)
            = api_calls s @ [get_asset_as_data_url p]
        \<and> api_calls (renderCompleted lower now reply saveReply listReply p a n s)
            = api_calls s @ get_asset_as_data_url p #
                (if a then save_rendered_file p n #
                   (case saveReply of
                      Resolved r \<Rightarrow>
                        (if status r = js ''success'' \<and> \<not> includes_str p (js ''render'')
                         then [list_media_files] else [])
                    | Rejected err \<Rightarrow> [])
                 else []))"
proof -
  have "truthy p \<longrightarrow>
          preview (renderCompleted lower now reply saveReply listReply p a n s)
            = preview (showPreview lower now reply p s)
          \<and> preview (previewCompleted lower now reply p s)
            = preview (showPreview lower now reply p s)"
    by (simp add: renderCompleted_loads(1) previewCompleted_loads(1))
  then show ?thesis
    using showPreview_surface[of p lower now reply s]
    by (simp add: callbacks_not_running renderCompleted_loads(2) previewCompleted_loads(2)
          Let_def)
qed

theorem callbacks_clear_running_and_load_preview_witness:
  "truthy (js ''media/out.mp4'')
   \<and> \<not> running (job (renderCompleted asciiLower (js ''17'') (Resolved videoUrl)
                         (Resolved success) (Resolved success)
                         (js ''media/out.mp4'') True (js ''MyScene.mp4'')
                         ((initial (js ''x''))\<lparr> job := \<lparr> running = True, type = Some (js ''preview'') \<rparr> \<rparr>)))
   \<and> preview (renderCompleted asciiLower (js ''17'') (Resolved videoUrl)
                (Resolved success) (Resolved success)
                (js ''media/out.mp4'') True (js ''MyScene.mp4'')
                ((initial (js ''x''))\<lparr> job := \<lparr> running = True, type = Some (js ''preview'') \<rparr> \<rparr>))
       = \<lparr> videoSrc = Some (js ''http://127.0.0.1/out.mp4?_=17''), imageSrc = None,
           videoShown = True, imageShown = False, placeholderShown = False,
           previewFilename = js ''out.mp4'' \<rparr>
   \<and> api_calls (renderCompleted asciiLower (js ''17'') (Resolved videoUrl)
                (Resolved success) (Resolved success)
                (js ''media/out.mp4'') True (js ''MyScene.mp4'')
                ((initial (js ''x''))\<lparr> job := \<lparr> running = True, type = Some (js ''preview'') \<rparr> \<rparr>))
       = [get_asset_as_data_url (js ''media/out.mp4''),
          save_rendered_file (js ''media/out.mp4'') (js ''MyScene.mp4''), list_media_files]"
  using callbacks_clear_running_and_load_preview
    [of asciiLower "js ''17''" "Resolved videoUrl" "Resolved success" "Resolved success"
        "js ''media/out.mp4''" True "js ''MyScene.mp4''"
        "(initial (js ''x''))\<lparr> job := \<lparr> running = True, type = Some (js ''preview'') \<rparr> \<rparr>"]
  by (simp add: model_defs)

section \<open>Properties of the autosave timer\<close>

text \<open>
  C4. An autosave tick issues no backend call when the editor content equals the last
  saved snapshot, nor when it is empty or white space only, and it leaves the save
  indicator as it was: the tick changes nothing at all.
\<close>

theorem autosave_skips_unchanged_or_blank:
  assumes "getEditorValue s = lastSavedCode s \<or> list_all isWhiteSpace (getEditorValue s)"
  shows "performAutosave reply s = s
       \<and> api_calls (performAutosave reply s) = api_calls s
       \<and> autosaveIndicator (performAutosave reply s) = autosaveIndicator s"
proof -
  have "performAutosave reply s = s"
    using assms by (auto simp: performAutosave_def trim_empty_iff truthy_def Let_def)
  then show ?thesis by simp
qed

theorem autosave_skips_unchanged_or_blank_witness:
  "getEditorValue ((initial (js ''abc''))\<lparr> lastSavedCode := js ''abc'',
                                            autosaveIndicator := Some saved \<rparr>)
     = lastSavedCode ((initial (js ''abc''))\<lparr> lastSavedCode := js ''abc'',
                                               autosaveIndicator := Some saved \<rparr>)
   \<and> api_calls (performAutosave (Resolved success)
                 ((initial (js ''abc''))\<lparr> lastSavedCode := js ''abc'',
                                          autosaveIndicator := Some saved \<rparr>)) = []
   \<and> autosaveIndicator (performAutosave (Resolved success)
                 ((initial (js ''abc''))\<lparr> lastSavedCode := js ''abc'',
                                          autosaveIndicator := Some saved \<rparr>)) = Some saved
   \<and> list_all isWhiteSpace (getEditorValue (initial [0x20, 0x0A]))
   \<and> performAutosave (Resolved success) (initial [0x20, 0x0A]) = initial [0x20, 0x0A]"
  using autosave_skips_unchanged_or_blank
          [of "(initial (js ''abc''))\<lparr> lastSavedCode := js ''abc'',
                                        autosaveIndicator := Some saved \<rparr>" "Resolved success"]
        autosave_skips_unchanged_or_blank [of "initial [0x20, 0x0A]" "Resolved success"]
  by (simp add: initial_def getEditorValue_def isWhiteSpace_def)

section \<open>Properties of the asset browser\<close>

text \<open>
  C7. With an empty search query and the category \<open>all\<close>, displaying the cached asset
  list shows exactly that list, every file once and in the cached order, and the counter
  shows its length. The same holds when the state is reached through the search box
  (input emptied) or through the category button \<open>all\<close>.
\<close>

theorem unfiltered_display_is_cached_list:
  assumes "searchQuery s = []" and "currentFilter s = js ''all''"
  shows "shown (assetsGrid (displayAssets lower (allAssets s) s)) = allAssets s
       \<and> assetsCount (displayAssets lower (allAssets s) s) = length (allAssets s)
       \<and> shown (assetsGrid (onSearchInput lower [] s)) = allAssets s
       \<and> shown (assetsGrid (onFilterClick lower (js ''all'') s)) = allAssets s"
  using assms
  by (simp add: displayAssets_def onSearchInput_def onFilterClick_def shown_def truthy_def Let_def)

theorem unfiltered_display_is_cached_list_witness:
  "searchQuery ((initial [])\<lparr> allAssets := [clip, logo, clip] \<rparr>) = []
   \<and> currentFilter ((initial [])\<lparr> allAssets := [clip, logo, clip] \<rparr>) = js ''all''
   \<and> assetsGrid (displayAssets asciiLower [clip, logo, clip]
                   ((initial [])\<lparr> allAssets := [clip, logo, clip] \<rparr>))
       = cards [clip, logo, clip]
   \<and> assetsCount (displayAssets asciiLower [clip, logo, clip]
                   ((initial [])\<lparr> allAssets := [clip, logo, clip] \<rparr>)) = 3"
  using unfiltered_display_is_cached_list
          [of "(initial [])\<lparr> allAssets := [clip, logo, clip] \<rparr>" asciiLower]
  by (simp add: initial_def displayAssets_def truthy_def Let_def)

text \<open>
  C8. The backend delete call is issued only after the user confirms. With the blocking
  dialog of \<open>new_features.js\<close>, a declined or dismissed confirmation leaves the whole
  state as it was. With the modal of \<open>simple_assets.js\<close>, opening the modal issues no
  call, and closing it by Cancel, by a click on the overlay or by Escape issues no call
  and leaves both asset lists as they were.
\<close>

theorem delete_needs_confirmation:
  "(\<not> confirmed \<longrightarrow> deleteAsset lower confirmed reply listReply filePath fileName s = s)
   \<and> api_calls (deleteAsset_simple filePath fileName s) = api_calls s
   \<and> (a \<noteq> click_delete \<longrightarrow>
        api_calls (modalAction reply listReply a (deleteAsset_simple filePath fileName s))
          = api_calls s
        \<and> allAssets (modalAction reply listReply a (deleteAsset_simple filePath fileName s))
          = allAssets s
        \<and> simpleAssets (modalAction reply listReply a (deleteAsset_simple filePath fileName s))
          = simpleAssets s
        \<and> confirmModal (modalAction reply listReply a (deleteAsset_simple filePath fileName s))
          = None)"
  by (cases a)
     (simp_all add: deleteAsset_def deleteAsset_simple_def showCustomConfirm_def modalAction_def)

theorem delete_needs_confirmation_witness:
  "deleteAsset asciiLower False (Resolved success) (Resolved success)
       (js ''assets/logo.png'') (js ''logo.png'') ((initial [])\<lparr> allAssets := [clip, logo] \<rparr>)
     = (initial [])\<lparr> allAssets := [clip, logo] \<rparr>
   \<and> click_cancel \<noteq> click_delete
   \<and> api_calls (modalAction (Resolved success) (Resolved success) click_cancel
        (deleteAsset_simple (js ''assets/logo.png'') (js ''logo.png'')
           ((initial [])\<lparr> allAssets := [clip, logo] \<rparr>))) = []
   \<and> allAssets (modalAction (Resolved success) (Resolved success) click_cancel
        (deleteAsset_simple (js ''assets/logo.png'') (js ''logo.png'')
           ((initial [])\<lparr> allAssets := [clip, logo] \<rparr>))) = [clip, logo]
   \<and> api_calls (modalAction (Resolved success) (Resolved success) click_delete
        (deleteAsset_simple (js ''assets/logo.png'') (js ''logo.png'')
           ((initial [])\<lparr> allAssets := [clip, logo] \<rparr>)))
       = [delete_asset (js ''assets/logo.png''), list_media_files]"
  using delete_needs_confirmation
          [of False asciiLower "Resolved success" "Resolved success" "js ''assets/logo.png''"
              "js ''logo.png''" "(initial [])\<lparr> allAssets := [clip, logo] \<rparr>" click_cancel]
  by (simp add: initial_def deleteAsset_simple_def showCustomConfirm_def modalAction_def
        onConfirm_def loadAssets_def call_def showCustomAlert_def success_def js_def)

section \<open>Properties of the terminal session\<close>

lemma api_calls_debounce: "api_calls (debounce cb s) = api_calls s"
  by (simp add: debounce_def setTimeout_def clearTimeout_def Let_def split: option.splits)

lemma one_pending_debounce: "one_pending s \<Longrightarrow> one_pending (debounce cb s)"
  by (auto simp: one_pending_def debounce_def setTimeout_def clearTimeout_def Let_def
           split: option.splits list.splits)

lemma timers_settled:
  "timers (observerSettled sz s) = timers s" "timers (windowSettled sz s) = timers s"
  "nextTimer (observerSettled sz s) = nextTimer s" "nextTimer (windowSettled sz s) = nextTimer s"
  "resizeTimeout (observerSettled sz s) = resizeTimeout s" "resizeTimeout (windowSettled sz s) = resizeTimeout s"
  by (simp_all add: observerSettled_def windowSettled_def notifyBackend_def call_def Let_def
        split: option.splits)

lemma fireTimer_no_timer: "timers s = [] \<Longrightarrow> fireTimer i sz s = s"
  by (simp add: fireTimer_def)

lemma fireTimer_consumes:
  "one_pending s \<Longrightarrow> timers (fireTimer i sz s) = [] \<or> fireTimer i sz s = s"
  by (auto simp: one_pending_def fireTimer_def timers_settled Let_def
           split: option.splits list.splits resize_cb.splits if_splits)

lemma one_pending_fireTimer: "one_pending s \<Longrightarrow> one_pending (fireTimer i sz s)"
  by (auto simp: one_pending_def fireTimer_def timers_settled Let_def
           split: option.splits list.splits resize_cb.splits if_splits)

lemma settled_calls:
  "\<exists>extra. api_calls (observerSettled sz s) = api_calls s @ extra \<and> length extra \<le> 1"
  "\<exists>extra. api_calls (windowSettled sz s) = api_calls s @ extra \<and> length extra \<le> 1"
  by (auto simp: observerSettled_def windowSettled_def notifyBackend_def call_def Let_def
        split: option.splits)

lemma fireTimer_calls:
  "\<exists>extra. api_calls (fireTimer i sz s) = api_calls s @ extra \<and> length extra \<le> 1"
proof (cases "map_of (timers s) i")
  case None
  then show ?thesis by (simp add: fireTimer_def)
next
  case (Some cb)
  let ?s1 = "s\<lparr> timers := filter (\<lambda>t. fst t \<noteq> i) (timers s) \<rparr>"
  have "api_calls ?s1 = api_calls s" by simp
  then show ?thesis
    using Some settled_calls(1)[of sz ?s1] settled_calls(2)[of sz ?s1]
    by (cases cb) (simp_all add: fireTimer_def Let_def)
qed

lemma run_append: "run (xs @ ys) s = run ys (run xs s)"
  by (induction xs arbitrary: s) simp_all

lemma run_fires_idle:
  "timers s = [] \<Longrightarrow> list_all (\<lambda>e. \<not> isResize e) fires \<Longrightarrow> run fires s = s"
proof (induction fires)
  case Nil
  then show ?case by simp
next
  case (Cons e es)
  then show ?case by (cases e) (simp_all add: fireTimer_no_timer)
qed

lemma run_fires_calls:
  "one_pending s \<Longrightarrow> list_all (\<lambda>e. \<not> isResize e) fires \<Longrightarrow>
   \<exists>extra. api_calls (run fires s) = api_calls s @ extra \<and> length extra \<le> 1"
proof (induction fires arbitrary: s)
  case Nil
  then show ?case by simp
next
  case (Cons e es)
  from Cons.prems(2) obtain i sz where e: "e = timer_fired i sz" and es: "list_all (\<lambda>e. \<not> isResize e) es"
    by (cases e) simp_all
  from fireTimer_consumes[OF Cons.prems(1), of i sz] show ?case
  proof
    assume "timers (fireTimer i sz s) = []"
    then have "run es (fireTimer i sz s) = fireTimer i sz s"
      using es by (rule run_fires_idle)
    then show ?thesis using e fireTimer_calls[of i sz s] by simp
  next
    assume "fireTimer i sz s = s"
    then show ?thesis using e Cons.IH[OF Cons.prems(1) es] by simp
  qed
qed

lemma run_burst:
  "one_pending s \<Longrightarrow> list_all isResize burst \<Longrightarrow>
   one_pending (run burst s) \<and> api_calls (run burst s) = api_calls s"
proof (induction burst arbitrary: s)
  case Nil
  then show ?case by simp
next
  case (Cons e es)
  have "one_pending (handle e s) \<and> api_calls (handle e s) = api_calls s"
    using Cons.prems
    by (cases e) (simp_all add: onContainerResize_def onWindowResize_def
                     one_pending_debounce api_calls_debounce)
  then show ?case using Cons.IH[of "handle e s"] Cons.prems(2) by simp
qed

text \<open>The invariant holds when the page is loaded and after every event.\<close>

lemma one_pending_reachable: "one_pending (run evs (initializeTerminal (initial code)))"
proof -
  have step: "one_pending s \<Longrightarrow> one_pending (run evs s)" for s
  proof (induction evs arbitrary: s)
    case Nil
    then show ?case by simp
  next
    case (Cons e es)
    have "one_pending (handle e s)"
      using Cons.prems
      by (cases e) (simp_all add: onContainerResize_def onWindowResize_def
                       one_pending_debounce one_pending_fireTimer)
    then show ?case using Cons.IH[of "handle e s"] by simp
  qed
  have "one_pending (initializeTerminal (initial code))"
    by (simp add: one_pending_def initializeTerminal_def initial_def)
  then show ?thesis by (rule step)
qed

lemma observer_unchanged:
  "timers s = [(i, observer_cb)] \<Longrightarrow> fireTimer i (lastCols s, lastRows s) s = s\<lparr> timers := [] \<rparr>"
  by (simp add: fireTimer_def observerSettled_def)

text \<open>
  Each resize event replaces the pending timer by a new one, which \<open>resizeTimeout\<close>
  names; resize events leave the widget and the reported size alone.
\<close>

lemma debounce_rearms:
  "one_pending s \<Longrightarrow>
   timers (debounce cb s) = [(nextTimer s, cb)]
   \<and> resizeTimeout (debounce cb s) = Some (nextTimer s)
   \<and> nextTimer (debounce cb s) = nextTimer s + 1"
  by (auto simp: one_pending_def debounce_def setTimeout_def clearTimeout_def Let_def
           split: option.splits list.splits)

lemma run_burst_widget:
  "list_all isResize burst \<Longrightarrow>
   termWidget (run burst s) = termWidget s \<and> lastCols (run burst s) = lastCols s
   \<and> lastRows (run burst s) = lastRows s \<and> isAppClosing (run burst s) = isAppClosing s"
proof (induction burst arbitrary: s)
  case Nil
  then show ?case by simp
next
  case (Cons e es)
  have "termWidget (handle e s) = termWidget s \<and> lastCols (handle e s) = lastCols s
        \<and> lastRows (handle e s) = lastRows s \<and> isAppClosing (handle e s) = isAppClosing s"
    using Cons.prems
    by (cases e) (simp_all add: onContainerResize_def onWindowResize_def debounce_def
                     setTimeout_def clearTimeout_def Let_def split: option.splits)
  then show ?case using Cons.IH[of "handle e s"] Cons.prems by simp
qed

lemma run_burst_pending:
  assumes "one_pending s" and "list_all isResize burst" and "burst \<noteq> []"
    and "termWidget s \<noteq> None"
  shows "\<exists>i. timers (run burst s)
           = [(i, if last burst = window_resized then window_cb else observer_cb)]"
proof -
  from assms(3) obtain es e where b: "burst = es @ [e]"
    by (cases burst rule: rev_cases) auto
  with assms(2) have es: "list_all isResize es" and e: "isResize e" by simp_all
  have inv: "one_pending (run es s)" using run_burst[OF assms(1) es] by simp
  have w: "termWidget (run es s) \<noteq> None" using run_burst_widget[OF es, of s] assms(4) by simp
  have "run burst s = handle e (run es s)" by (simp add: b run_append)
  then show ?thesis
    using e w debounce_rearms[OF inv] b
    by (cases e) (simp_all add: onContainerResize_def onWindowResize_def)
qed

text \<open>
  What a firing timer sends. The observer's timer reports the size computed at the
  firing when it differs from the last reported one, and records it; the window's timer
  reports it whether it differs or not.
\<close>

lemma observer_timer_reports:
  assumes "timers s = [(i, observer_cb)]" and "termWidget s \<noteq> None" and "\<not> isAppClosing s"
    and "0 < c" and "0 < r" and "c \<noteq> lastCols s \<or> r \<noteq> lastRows s"
  shows "api_calls (fireTimer i (c, r) s) = api_calls s @ [resize_terminal c r]
       \<and> lastCols (fireTimer i (c, r) s) = c \<and> lastRows (fireTimer i (c, r) s) = r
       \<and> timers (fireTimer i (c, r) s) = []"
  using assms
  by (auto simp: fireTimer_def observerSettled_def notifyBackend_def call_def Let_def)

lemma window_timer_reports:
  assumes "timers s = [(i, window_cb)]" and "termWidget s \<noteq> None" and "\<not> isAppClosing s"
    and "0 < c" and "0 < r"
  shows "api_calls (fireTimer i (c, r) s) = api_calls s @ [resize_terminal c r]
       \<and> lastCols (fireTimer i (c, r) s) = c \<and> lastRows (fireTimer i (c, r) s) = r
       \<and> timers (fireTimer i (c, r) s) = []"
  using assms
  by (auto simp: fireTimer_def windowSettled_def notifyBackend_def call_def Let_def)

text \<open>
  Debouncing. While at most one debounce timer is pending: a burst of resize events of
  the container or the window sends nothing to the backend and, with a terminal, leaves
  exactly one timer pending, the one of its last event; the timer firings that follow
  send at most one resize notification in all; and when the pending timer is the
  observer's and the size computed at its firing equals the last reported size, nothing
  is sent.
\<close>

lemma resize_burst_debounced:
  assumes "one_pending s" and "list_all isResize burst"
    and "list_all (\<lambda>e. \<not> isResize e) fires"
  shows "api_calls (run burst s) = api_calls s
     \<and> one_pending (run burst s)
     \<and> (burst \<noteq> [] \<and> termWidget s \<noteq> None \<longrightarrow>
          (\<exists>i. timers (run burst s)
             = [(i, if last burst = window_resized then window_cb else observer_cb)]))
     \<and> (\<exists>extra. api_calls (run (burst @ fires) s) = api_calls s @ extra \<and> length extra \<le> 1)
     \<and> (timers (run burst s) = [(i, observer_cb)] \<longrightarrow>
          api_calls (fireTimer i (lastCols (run burst s), lastRows (run burst s)) (run burst s))
            = api_calls s)"
proof -
  from run_burst[OF assms(1,2)]
  have inv: "one_pending (run burst s)" and same: "api_calls (run burst s) = api_calls s"
    by simp_all
  from run_fires_calls[OF inv assms(3)] same
  have "\<exists>extra. api_calls (run (burst @ fires) s) = api_calls s @ extra \<and> length extra \<le> 1"
    by (simp add: run_append)
  moreover have "timers (run burst s) = [(i, observer_cb)] \<longrightarrow>
          api_calls (fireTimer i (lastCols (run burst s), lastRows (run burst s)) (run burst s))
            = api_calls s"
    using same by (simp add: observer_unchanged)
  moreover have "burst \<noteq> [] \<and> termWidget s \<noteq> None \<longrightarrow>
          (\<exists>i. timers (run burst s)
             = [(i, if last burst = window_resized then window_cb else observer_cb)])"
    using run_burst_pending[OF assms(1,2)] by blast
  ultimately show ?thesis using same inv by blast
qed

lemma resize_burst_example:
  "api_calls (run [container_resized, window_resized, container_resized] sized)
       = [resize_terminal 80 24]
   \<and> timers (run [container_resized, window_resized, container_resized] sized)
       = [(3, observer_cb)]
   \<and> api_calls (run ([container_resized, window_resized, container_resized]
                      @ [timer_fired 2 (90, 28), timer_fired 3 (100, 30),
                         timer_fired 3 (120, 40)]) sized)
       = [resize_terminal 80 24, resize_terminal 100 30]
   \<and> api_calls (fireTimer 3 (80, 24)
                 (run [container_resized, window_resized, container_resized] sized))
       = [resize_terminal 80 24]"
  by (simp add: model_defs)

text \<open>
  C3. A settled size change is reported to the backend at most once, after the debounce
  interval, and only when the computed size differs from the last reported one. The
  timer set by the container's observer makes that comparison; the timer set by the
  window's resize listener, which shares the debounce with it, does not. With 80 by 24
  reported: a resize of the container alone that settles at 80 by 24 sends nothing, and
  the same resize seen through the window listener as well reports 80 by 24 again.
\<close>

theorem window_resize_reports_unchanged_size:
  "lastCols sized = 80 \<and> lastRows sized = 24
   \<and> api_calls sized = [resize_terminal 80 24]
   \<and> api_calls (run [container_resized, timer_fired 1 (80, 24)] sized)
       = [resize_terminal 80 24]
   \<and> api_calls (run [container_resized, window_resized, timer_fired 2 (80, 24)] sized)
       = [resize_terminal 80 24, resize_terminal 80 24]"
  by (simp add: model_defs)

text \<open>
  The polling tick of the terminal calls the backend in every state, and so does a
  render request with code in the editor on an idle page.
\<close>

lemma pollTerminal_calls:
  "api_calls (pollTerminal reply s) = api_calls s @ [get_terminal_output]"
  by (simp add: pollTerminal_def call_def console_error_def Let_def
        split: promise.splits option.splits)

text \<open>
  C6. Once the shutdown flag is set no further backend call is made, resize
  notifications in particular, and errors of the backend are not shown. The flag is
  read by the resize handlers and the autosave tick only. After \<open>beforeunload\<close> the
  polling tick of the terminal still calls the backend, and a render request still
  does and shows the backend's error as a notification.
\<close>

theorem backend_called_after_shutdown:
  "isAppClosing (beforeunload (initializeTerminal (initial (js ''x''))))
   \<and> api_calls (pollTerminal (Resolved success)
                  (beforeunload (initializeTerminal (initial (js ''x'')))))
       = [get_terminal_output]
   \<and> api_calls (renderAnimation parseInt10 form720 (Rejected (js ''closed''))
                  (beforeunload (initial (js ''x''))))
       = [render_animation (js ''x'') (Preset (js ''720p'')) 30]
   \<and> toasts (renderAnimation parseInt10 form720 (Rejected (js ''closed''))
                  (beforeunload (initial (js ''x''))))
       = [(js ''Render error: closed'', js ''error'')]"
  by (simp add: pollTerminal_def renderAnimation_def model_defs)

lemma closing_handle:
  "isAppClosing s \<Longrightarrow> api_calls (handle ev s) = api_calls s \<and> isAppClosing (handle ev s)"
  by (cases ev)
     (auto simp: onContainerResize_def onWindowResize_def debounce_def setTimeout_def
        clearTimeout_def fireTimer_def observerSettled_def windowSettled_def
        notifyBackend_def Let_def
        split: option.splits resize_cb.splits)

lemma closing_run:
  "isAppClosing s \<Longrightarrow> api_calls (run evs s) = api_calls s \<and> isAppClosing (run evs s)"
proof (induction evs arbitrary: s)
  case Nil
  then show ?case by simp
next
  case (Cons ev evs)
  from closing_handle[OF Cons.prems]
  have "api_calls (handle ev s) = api_calls s" and "isAppClosing (handle ev s)" by simp_all
  with Cons.IH[of "handle ev s"] show ?case by simp
qed

text \<open>
  The part of the shutdown guard that is there. Once the flag is set, no sequence of
  resize events and timer firings sends a resize notification, the flag stays set, the
  two automatic sizings after start-up send none, a rejected resize notification is not
  reported, and an autosave tick does nothing.
\<close>

lemma shutdown_suppresses_resize_and_autosave:
  assumes "isAppClosing s"
  shows "api_calls (run evs s) = api_calls s
       \<and> isAppClosing (run evs s)
       \<and> api_calls (initialAutoSize sz s) = api_calls s
       \<and> api_calls (secondaryAutoSize sz s) = api_calls s
       \<and> resizeRejected err s = s
       \<and> performAutosave reply s = s"
  using assms closing_run[OF assms, of evs]
  by (simp add: initialAutoSize_def secondaryAutoSize_def notifyBackend_def resizeRejected_def
        performAutosave_def Let_def split: option.splits)

lemma shutdown_example:
  "isAppClosing (beforeunload sized)
   \<and> api_calls (run [container_resized, timer_fired 1 (100, 30)] (beforeunload sized))
       = [resize_terminal 80 24]
   \<and> termWidget (run [container_resized, timer_fired 1 (100, 30)] (beforeunload sized))
       = Some \<lparr> cols = 100, rows = 30, written = [] \<rparr>
   \<and> api_calls (secondaryAutoSize (100, 30) (beforeunload sized)) = [resize_terminal 80 24]
   \<and> logged (resizeRejected (js ''gone'') (beforeunload sized)) = []"
  by (simp add: model_defs)

end
